theory Spec2Isabelle
  imports Main "HOL-Library.AList"
begin

section \<open>The GENI reference aggregate manager (am3.py): data model\<close>

text \<open>
  Instants are naive UTC datetimes, counted in microseconds since
  \<^verbatim>\<open>datetime.datetime.min\<close>; a \<^verbatim>\<open>timedelta\<close> is a number of microseconds.
  A datetime, naive or aware, is kept as its UTC instant.
\<close>

type_synonym time = int

definition datetime_min :: time where
  "datetime_min = 0"

text \<open>\<^verbatim>\<open>datetime.datetime.max\<close>, the last microsecond of year 9999.\<close>

definition datetime_max :: time where
  "datetime_max = 315537897599999999"

definition timedelta_seconds :: "int \<Rightarrow> time" where
  "timedelta_seconds n = n * 1000000"

definition timedelta_days :: "int \<Rightarrow> time" where
  "timedelta_days n = n * 86400 * 1000000"

definition REFAM_MAXLEASE_DAYS :: int where
  "REFAM_MAXLEASE_DAYS = 365"

definition ALLOCATE_EXPIRATION_SECONDS :: int where
  "ALLOCATE_EXPIRATION_SECONDS = 10 * 60"

text \<open>\<^verbatim>\<open>self.max_lease\<close>, set in the constructor and read by no operation of am3.py.\<close>

definition max_lease :: time where
  "max_lease = timedelta_days REFAM_MAXLEASE_DAYS"

text \<open>
  Modelled from the spec: the module \<^verbatim>\<open>resource\<close> (class Resource) is not among the
  sources. The spec (section 3) gives a resource an opaque unique id, a type tag, a
  client id once bound, \<^verbatim>\<open>available\<close>, a status among unconfigured, configuring, ready,
  failed, shutdown, and an allocation state among unallocated, allocated, provisioned.
  \<^verbatim>\<open>STATUS_UNKNOWN\<close> is the default of the aggregated status.
\<close>

datatype status =
    STATUS_UNCONFIGURED | STATUS_CONFIGURING | STATUS_READY | STATUS_FAILED
  | STATUS_SHUTDOWN | STATUS_UNKNOWN

datatype alloc_state = STATE_GENI_UNALLOCATED | STATE_GENI_ALLOCATED | STATE_GENI_PROVISIONED

type_synonym rid = string

record resource =
  rid :: rid
  rtype :: string
  external_id :: "string option"
  available :: bool
  status :: status
  state :: alloc_state

text \<open>
  Modelled from the spec: \<^verbatim>\<open>Resource.reset\<close> (section 4.1) clears the binding fields and
  sets available to true, status to unconfigured and state to unallocated.
\<close>

definition reset :: "resource \<Rightarrow> resource" where
  "reset r = r\<lparr>external_id := None, available := True,
               status := STATUS_UNCONFIGURED, state := STATE_GENI_UNALLOCATED\<rparr>"

text \<open>
  Modelled from the spec: \<^verbatim>\<open>FakeVM()\<close> (module \<^verbatim>\<open>fakevm\<close>, not among the sources) makes
  a fresh resource, available and unbound; the generated id is the argument.
\<close>

definition FakeVM :: "rid \<Rightarrow> resource" where
  "FakeVM i = \<lparr>rid = i, rtype = ''fakevm'', external_id = None, available = True,
              status = STATUS_UNCONFIGURED, state = STATE_GENI_UNALLOCATED\<rparr>"

text \<open>
  A Slice holds its URN, its expiration and \<^verbatim>\<open>_resources\<close>, a dict from resource id to
  the resource object. Resource objects are shared with the aggregate's catalog and
  mutated in place, so the slice keeps the keys (in the dict's order) and the objects are
  read from the catalog by id. The field \<^verbatim>\<open>id\<close> (a uuid4 string) is read by no operation
  and is left out.
\<close>

record slice =
  urn :: string
  expiration :: time
  res_ids :: "rid list"

text \<open>
  The state of a ReferenceAggregateManager: \<^verbatim>\<open>_agg\<close>'s list of resources, in its stable
  order, and the dict \<^verbatim>\<open>_slices\<close> as an association list.
\<close>

record am =
  agg :: "resource list"
  slices :: "(string \<times> slice) list"

definition Slice :: "string \<Rightarrow> time \<Rightarrow> slice" where
  "Slice u e = \<lparr>urn = u, expiration = e, res_ids = []\<rparr>"

definition add_resource :: "slice \<Rightarrow> rid \<Rightarrow> slice" where
  "add_resource sl i = (if i \<in> set (res_ids sl) then sl else sl\<lparr>res_ids := res_ids sl @ [i]\<rparr>)"

definition deref :: "am \<Rightarrow> rid \<Rightarrow> resource option" where
  "deref s i = find (\<lambda>r. rid r = i) (agg s)"

text \<open>\<^verbatim>\<open>Slice.resources()\<close>: the values of \<^verbatim>\<open>_resources\<close>.\<close>

definition Slice_resources :: "am \<Rightarrow> slice \<Rightarrow> resource list" where
  "Slice_resources s sl = List.map_filter (deref s) (res_ids sl)"

text \<open>
  \<^verbatim>\<open>Slice.status(resources)\<close>. The first argument is \<^verbatim>\<open>self.resources()\<close>, which the
  method reads again for the all-ready comparison.
\<close>

definition Slice_status :: "resource list \<Rightarrow> resource list \<Rightarrow> status" where
  "Slice_status self_resources resources =
     (let rstat = map status resources in
      if STATUS_SHUTDOWN \<in> set rstat then STATUS_SHUTDOWN
      else if STATUS_FAILED \<in> set rstat then STATUS_FAILED
      else if STATUS_CONFIGURING \<in> set rstat then STATUS_CONFIGURING
      else if rstat = map (\<lambda>res. STATUS_READY) self_resources then STATUS_READY
      else STATUS_UNKNOWN)"

text \<open>Mutating the resource object with id \<open>i\<close> in place.\<close>

definition mutate :: "rid \<Rightarrow> (resource \<Rightarrow> resource) \<Rightarrow> am \<Rightarrow> am" where
  "mutate i f s = s\<lparr>agg := map (\<lambda>r. if rid r = i then f r else r) (agg s)\<rparr>"

fun mutate_all :: "rid list \<Rightarrow> (resource \<Rightarrow> resource) \<Rightarrow> am \<Rightarrow> am" where
  "mutate_all [] f s = s"
| "mutate_all (i # is) f s = mutate_all is f (mutate i f s)"

text \<open>
  Modelled from the spec: the module \<^verbatim>\<open>aggregate\<close> (class Aggregate) is not among the
  sources. \<^verbatim>\<open>catalog()\<close> enumerates all resources in a stable order (section 4.1);
  \<^verbatim>\<open>catalog(slice_urn)\<close> gives the member resources of that slice, on which SliverStatus,
  RenewSliver and Shutdown act (sections 3 and 4.4). Membership is held by the Slice
  records, so \<^verbatim>\<open>deallocate(slice_urn, None)\<close> has nothing of its own to release: the
  callers reset the members and remove the registry entry themselves.
\<close>

definition catalog :: "am \<Rightarrow> string option \<Rightarrow> resource list" where
  "catalog s container =
     (case container of
        None \<Rightarrow> agg s
      | Some u \<Rightarrow> (case map_of (slices s) u of None \<Rightarrow> [] | Some sl \<Rightarrow> Slice_resources s sl))"

definition deallocate :: "string \<Rightarrow> am \<Rightarrow> am" where
  "deallocate container s = s"

text \<open>\<^verbatim>\<open>self.resources(available=True)\<close>, as the ids of the objects in the list.\<close>

definition resources_available :: "am \<Rightarrow> rid list" where
  "resources_available s = map rid (filter (\<lambda>r. available r = True) (catalog s None))"

section \<open>Result envelopes and exceptions\<close>

text \<open>
  A Python string built with \<^verbatim>\<open>fmt % args\<close> is kept as the format and its arguments:
  the text rendering of datetimes and lists belongs to the Python runtime. The empty
  string is \<open>Fmt [] []\<close>.
\<close>

text \<open>An exception is kept as its class name and \<^verbatim>\<open>str(exception)\<close>.\<close>

datatype arg = AStr string | ATime time | ATypes "string list" | AExc exc
  and message = Fmt string "arg list"
  and exc = Raised string message

fun str_exc :: "exc \<Rightarrow> message" where
  "str_exc (Raised c m) = m"

text \<open>
  The \<^verbatim>\<open>value\<close> member. Documents are kept as the data that the string templates
  render: an advertisement as the listed resources (id, type, available), a manifest as
  the client ids of the member resources.
\<close>

datatype payload =
    VStr string
  | VBool bool
  | VVersions int
  | VAdvert "(rid \<times> string \<times> bool) list"
  | VCompressed "(rid \<times> string \<times> bool) list"
  | VAllocated "string option list" "(rid \<times> time \<times> alloc_state) list"
  | VStatus string status "(rid \<times> string \<times> status) list"

text \<open>The dict \<^verbatim>\<open>code\<close>; \<open>am_code = None\<close> is a dict without the key \<^verbatim>\<open>am_code\<close>.\<close>

record code_dict =
  geni_code :: int
  am_type :: string
  am_code :: "int option"

record envelope =
  geni_api :: "int option"
  code :: code_dict
  "value" :: payload
  "output" :: message

type_synonym 'a result = "(exc + 'a) \<times> am"

text \<open>The double quote character, for the messages that contain one.\<close>

definition dquote :: string where
  "dquote = [CHR 0x22]"

definition successResult :: "payload \<Rightarrow> envelope" where
  "successResult v =
     \<lparr>geni_api = None,
      code = \<lparr>geni_code = 0, am_type = ''gcf2'', am_code = Some 0\<rparr>,
      value = v, output = Fmt [] []\<rparr>"

definition errorResult :: "int \<Rightarrow> message \<Rightarrow> int option \<Rightarrow> envelope" where
  "errorResult c out amc =
     (let code_dict = \<lparr>geni_code = c, am_type = ''gcf2'', am_code = None\<rparr>;
          code_dict = (case amc of None \<Rightarrow> code_dict | Some a \<Rightarrow> code_dict\<lparr>am_code := Some a\<rparr>)
      in \<lparr>geni_api = None, code = code_dict, value = VStr [], output = out\<rparr>)"

definition no_such_slice :: "string \<Rightarrow> envelope" where
  "no_such_slice slice_urn =
     errorResult 12 (Fmt (''Search Failed: no slice '' @ dquote @ ''%s'' @ dquote @ '' found'')
        [AStr slice_urn]) None"

section \<open>Datetime arithmetic\<close>

text \<open>
  \<^verbatim>\<open>datetime + timedelta\<close> raises OverflowError when the sum leaves the range from
  \<^verbatim>\<open>datetime.min\<close> to \<^verbatim>\<open>datetime.max\<close>.
\<close>

definition datetime_add :: "time \<Rightarrow> time \<Rightarrow> exc + time" where
  "datetime_add dt delta =
     (if datetime_min \<le> dt + delta \<and> dt + delta \<le> datetime_max then Inr (dt + delta)
      else Inl (Raised ''OverflowError'' (Fmt ''date value out of range'' [])))"

text \<open>
  \<^verbatim>\<open>_naiveUTC\<close>: a datetime with a time zone is converted to UTC and loses the zone, a
  naive one is returned as it is; on UTC instants both leave the instant unchanged. A
  naive datetime lies within the range; the instant of an aware one can lie up to a day
  outside it, and then \<^verbatim>\<open>astimezone\<close> raises OverflowError.
\<close>

definition naiveUTC :: "time \<Rightarrow> exc + time" where
  "naiveUTC dt =
     (if datetime_min \<le> dt \<and> dt \<le> datetime_max then Inr dt
      else Inl (Raised ''OverflowError'' (Fmt ''date value out of range'' [])))"

section \<open>The expiration sweep\<close>

text \<open>
  \<^verbatim>\<open>expire_slices\<close>: the expired Slice objects are collected first; then each has its
  resources reset and its entry deleted under \<^verbatim>\<open>s.urn\<close>. \<^verbatim>\<open>del\<close> raises KeyError on a
  missing key.
\<close>

fun expire_loop :: "slice list \<Rightarrow> am \<Rightarrow> unit result" where
  "expire_loop [] s = (Inr (), s)"
| "expire_loop (sl # expired) s =
     (let s1 = deallocate (urn sl) s;
          s2 = mutate_all (map rid (Slice_resources s1 sl)) reset s1
      in case map_of (slices s2) (urn sl) of
           None \<Rightarrow> (Inl (Raised ''KeyError'' (Fmt ''%r'' [AStr (urn sl)])), s2)
         | Some _ \<Rightarrow> expire_loop expired (s2\<lparr>slices := AList.delete (urn sl) (slices s2)\<rparr>))"

definition expire_slices :: "time \<Rightarrow> am \<Rightarrow> unit result" where
  "expire_slices now s =
     (let expired = filter (\<lambda>sl. expiration sl < now) (map snd (slices s))
      in expire_loop expired s)"

section \<open>The operations of ReferenceAggregateManager\<close>

text \<open>
  Each operation takes the state and returns the new state with either the exception it
  raised or the envelope it returned. What the environment supplies is an argument:
  \<^item> \<open>now\<close>: the reading of \<^verbatim>\<open>datetime.datetime.utcnow()\<close>;
  \<^item> \<open>creds\<close>: what \<^verbatim>\<open>verify_from_strings\<close> did for this call, the exception it raised or
    the expirations of the credentials it returned (for RenewSliver as naive UTC
    instants, for Allocate as returned);
  \<^item> the parsed form of a document, URN or date string, \<open>None\<close> when the parser raises.
  The argument \<^verbatim>\<open>options\<close> is kept where the operation reads it.
\<close>

definition GetVersion :: "am \<Rightarrow> time \<Rightarrow> envelope result" where
  "GetVersion s now =
     (case expire_slices now s of
        (Inl e, s1) \<Rightarrow> (Inl e, s1)
      | (Inr _, s1) \<Rightarrow>
          (Inr \<lparr>geni_api = Some 3,
                code = \<lparr>geni_code = 0, am_type = ''gcf'', am_code = Some 0\<rparr>,
                value = VVersions 3, output = Fmt [] []\<rparr>, s1))"

record rspec_version =
  rv_type :: "string option"
  rv_version :: "string option"

record options =
  geni_rspec_version :: "rspec_version option"
  geni_slice_urn :: "string option"
  geni_available :: "bool option"
  geni_compressed :: "bool option"

text \<open>
  \<open>zfault\<close> is the exception of \<^verbatim>\<open>base64.b64encode(zlib.compress(result))\<close>, if it raises;
  the exception raised in its place has the message and that exception as its two
  arguments, and its \<^verbatim>\<open>str\<close> is the text of the pair.
  Option values are typed as the operation reads them: a dict with string fields, a
  string, two booleans.
\<close>

definition ListResources ::
  "am \<Rightarrow> time \<Rightarrow> (exc + time list) \<Rightarrow> options \<Rightarrow> exc option \<Rightarrow> envelope result" where
  "ListResources s now creds opts zfault =
     (case expire_slices now s of
        (Inl e, s1) \<Rightarrow> (Inl e, s1)
      | (Inr _, s1) \<Rightarrow>
     (case creds of
        Inl e \<Rightarrow> (Inl e, s1)
      | Inr _ \<Rightarrow>
     (case geni_rspec_version opts of
        None \<Rightarrow> (Inr (errorResult 1
          (Fmt ''Bad Arguments: option geni_rspec_version was not supplied.'' []) None), s1)
      | Some rv \<Rightarrow>
     (case rv_type rv of
        None \<Rightarrow> (Inr (errorResult 1
          (Fmt ''Bad Arguments: option geni_rspec_version does not have a type field.'' [])
          None), s1)
      | Some rspec_type \<Rightarrow>
     (case rv_version rv of
        None \<Rightarrow> (Inr (errorResult 1
          (Fmt ''Bad Arguments: option geni_rspec_version does not have a version field.'' [])
          None), s1)
      | Some rspec_vers \<Rightarrow>
      if rspec_type \<noteq> ''geni'' then
        (Inr (errorResult 4
          (Fmt ''Bad Version: requested RSpec type %s is not a valid option.''
             [AStr rspec_type]) None), s1)
      else if rspec_vers \<noteq> ''3'' then
        (Inr (errorResult 4
          (Fmt ''Bad Version: requested RSpec version %s is not a valid option.''
             [AStr rspec_type]) None), s1)
      else if geni_slice_urn opts \<noteq> None then
        (Inr (errorResult 1
          (Fmt (''Bad Arguments:option geni_slice_urn is no longer a supported option. Use ''
                @ dquote @ ''Describe'' @ dquote @ '' instead.'') []) None), s1)
      else
        (let all_resources = catalog s1 None;
             avail = (geni_available opts = Some True);
             listed = filter (\<lambda>r. \<not> (avail \<and> \<not> available r)) all_resources;
             doc = map (\<lambda>r. (rid r, rtype r, available r)) listed
         in if geni_compressed opts = Some True then
              (case zfault of
                 Some exc \<Rightarrow>
                   (Inl (Raised ''Exception''
                      (Fmt ''(%r, %r)''
                         [AStr ''Server error compressing resource list'', AExc exc])), s1)
               | None \<Rightarrow>
                   (Inr \<lparr>geni_api = None,
                         code = \<lparr>geni_code = 0, am_type = ''gcf'', am_code = Some 0\<rparr>,
                         value = VCompressed doc, output = Fmt [] []\<rparr>, s1))
            else
              (Inr \<lparr>geni_api = None,
                    code = \<lparr>geni_code = 0, am_type = ''gcf'', am_code = Some 0\<rparr>,
                    value = VAdvert doc, output = Fmt [] []\<rparr>, s1)))))))"

text \<open>
  The binding loop of Allocate: \<^verbatim>\<open>available.pop(0)\<close> raises IndexError on an empty list.
\<close>

fun bind_loop :: "string list \<Rightarrow> rid list \<Rightarrow> am \<Rightarrow> rid list \<Rightarrow> (rid list) result" where
  "bind_loop [] avail s resources = (Inr resources, s)"
| "bind_loop (client_id # unbound) [] s resources =
     (Inl (Raised ''IndexError'' (Fmt ''pop from empty list'' [])), s)"
| "bind_loop (client_id # unbound) (resource # avail) s resources =
     bind_loop unbound avail
       (mutate resource (\<lambda>r. r\<lparr>external_id := Some client_id, available := False\<rparr>) s)
       (resources @ [resource])"

text \<open>The loop that attaches the resources to the new slice and marks them allocated.\<close>

fun attach_loop :: "rid list \<Rightarrow> slice \<Rightarrow> am \<Rightarrow> slice \<times> am" where
  "attach_loop [] newslice s = (newslice, s)"
| "attach_loop (resource # resources) newslice s =
     attach_loop resources (add_resource newslice resource)
       (mutate resource (\<lambda>r. r\<lparr>state := STATE_GENI_ALLOCATED\<rparr>) s)"

text \<open>
  The loop that clamps the expiration by the credentials: \<^verbatim>\<open>_naiveUTC(cred.expiration)\<close>
  can raise in any round.
\<close>

fun clamp_loop :: "time list \<Rightarrow> time \<Rightarrow> exc + time" where
  "clamp_loop [] expir = Inr expir"
| "clamp_loop (cred # creds) expir =
     (case naiveUTC cred of
        Inl e \<Rightarrow> Inl e
      | Inr credexp \<Rightarrow> clamp_loop creds (if credexp < expir then credexp else expir))"

text \<open>
  \<open>now\<close> is the clock reading of the sweep, \<open>now2\<close> the later one of the expiration
  computation. \<open>rspec\<close> is the parsed request: the \<^verbatim>\<open>client_id\<close> attributes of its node
  elements in document order, \<open>None\<close> when \<^verbatim>\<open>minidom.parseString\<close> raises. Here \<open>creds\<close>
  holds the credentials' expirations as the verifier returned them, before
  \<^verbatim>\<open>_naiveUTC\<close>. An exception raised while the expiration is computed leaves the resources
  of the binding loop marked unavailable and no slice registered.
\<close>

definition Allocate ::
  "am \<Rightarrow> time \<Rightarrow> time \<Rightarrow> string \<Rightarrow> (exc + time list) \<Rightarrow> string list option \<Rightarrow> envelope result"
  where
  "Allocate s now now2 slice_urn creds rspec =
     (case expire_slices now s of
        (Inl e, s1) \<Rightarrow> (Inl e, s1)
      | (Inr _, s1) \<Rightarrow>
     (case creds of
        Inl e \<Rightarrow> (Inl e, s1)
      | Inr creds \<Rightarrow>
      if map_of (slices s1) slice_urn \<noteq> None then
        (Inr (errorResult 17 (Fmt ''Slice %s already exists'' [AStr slice_urn]) None), s1)
      else
     (case rspec of
        None \<Rightarrow> (Inr (errorResult 1 (Fmt ''Bad Args: RSpec is unparseable'' []) None), s1)
      | Some unbound \<Rightarrow>
        (let avail = resources_available s1 in
         if length unbound > length avail then
           (Inr (errorResult 6
              (Fmt ''Too Big: insufficient resources to fulfill request'' []) None), s1)
         else
        (case bind_loop unbound avail s1 [] of
           (Inl e, s2) \<Rightarrow> (Inl e, s2)
         | (Inr resources, s2) \<Rightarrow>
        (case datetime_add now2 (timedelta_seconds ALLOCATE_EXPIRATION_SECONDS) of
           Inl e \<Rightarrow> (Inl e, s2)
         | Inr expiration0 \<Rightarrow>
        (case clamp_loop creds expiration0 of
           Inl e \<Rightarrow> (Inl e, s2)
         | Inr expiration1 \<Rightarrow>
           (let (newslice, s3) = attach_loop resources (Slice slice_urn expiration1) s2;
                s4 = s3\<lparr>slices := AList.update slice_urn newslice (slices s3)\<rparr>;
                slivers = map (\<lambda>r. (rid r, expiration newslice, state r))
                            (Slice_resources s4 newslice);
                manifest = map external_id (Slice_resources s4 newslice)
            in (Inr \<lparr>geni_api = None,
                     code = \<lparr>geni_code = 0, am_type = ''gcf'', am_code = Some 0\<rparr>,
                     value = VAllocated manifest slivers, output = Fmt [] []\<rparr>, s4)))))))))"

text \<open>
  A URN argument comes with what \<^verbatim>\<open>urn.URN(urn=u).getType()\<close> does for it (module
  \<^verbatim>\<open>urn_util\<close>, outside the sources): the exception raised, or the type.
\<close>

type_synonym urn_arg = "string \<times> (exc + string)"

fun parse_urns :: "urn_arg list \<Rightarrow> exc + string list" where
  "parse_urns [] = Inr []"
| "parse_urns ((u, Inl e) # urns) = Inl e"
| "parse_urns ((u, Inr ty) # urns) =
     (case parse_urns urns of Inl e \<Rightarrow> Inl e | Inr tys \<Rightarrow> Inr (ty # tys))"

definition Delete :: "am \<Rightarrow> urn_arg list \<Rightarrow> (exc + time list) \<Rightarrow> envelope result" where
  "Delete s urns creds =
     (case parse_urns urns of
        Inl e \<Rightarrow> (Inl e, s)
      | Inr all_urn_types \<Rightarrow>
      if length (remdups all_urn_types) > 1 then
        (Inr (errorResult 1
           (Fmt ''Bad Arguments: URN types cannot be mixed. Received types: %r''
              [ATypes all_urn_types]) None), s)
      else
     (case all_urn_types of
        [] \<Rightarrow> (Inl (Raised ''IndexError'' (Fmt ''list index out of range'' [])), s)
      | urn_type # _ \<Rightarrow>
      if urn_type = ''sliver'' then
        (Inr (errorResult 5
           (Fmt ''Server Error: teach me how to delete individual slivers.'' []) None), s)
      else
        (let slice_urn = fst (hd urns) in
     (case creds of
        Inl e \<Rightarrow> (Inl e, s)
      | Inr _ \<Rightarrow>
     (case map_of (slices s) slice_urn of
        Some theslice \<Rightarrow>
          (let resources = Slice_resources s theslice in
           if Slice_status (Slice_resources s theslice) resources = STATUS_SHUTDOWN then
             (Inr (errorResult 11
                (Fmt ''Unavailable: Slice %s is unavailable.'' [AStr slice_urn]) None), s)
           else
             (let s1 = deallocate slice_urn s;
                  s2 = mutate_all (map rid resources) reset s1;
                  s3 = s2\<lparr>slices := AList.delete slice_urn (slices s2)\<rparr>
              in (Inr (successResult (VBool True)), s3)))
      | None \<Rightarrow> (Inr (no_such_slice slice_urn), s))))))"

definition SliverStatus :: "am \<Rightarrow> string \<Rightarrow> (exc + time list) \<Rightarrow> envelope result" where
  "SliverStatus s slice_urn creds =
     (case creds of
        Inl e \<Rightarrow> (Inl e, s)
      | Inr _ \<Rightarrow>
     (case map_of (slices s) slice_urn of
        Some theSlice \<Rightarrow>
          (let resources = catalog s (Some slice_urn);
               res_status = map (\<lambda>res. (rid res, rtype res, status res)) resources;
               result = VStatus slice_urn
                          (Slice_status (Slice_resources s theSlice) resources) res_status
           in (Inr \<lparr>geni_api = None,
                    code = \<lparr>geni_code = 0, am_type = ''gcf2'', am_code = Some 0\<rparr>,
                    value = result, output = Fmt [] []\<rparr>, s))
      | None \<Rightarrow> (Inr (no_such_slice slice_urn), s)))"

text \<open>
  The credential scan of RenewSliver. It returns from inside the loop at the first
  credential that is valid at the requested instant, and otherwise falls through with
  the value that \<^verbatim>\<open>maxexp\<close> then has.
\<close>

datatype scan = Committed | Fell_through time

fun scan_creds :: "time \<Rightarrow> time list \<Rightarrow> time \<Rightarrow> scan" where
  "scan_creds requested [] maxexp = Fell_through maxexp"
| "scan_creds requested (credexp # creds) maxexp =
     (let maxexp1 = (if credexp > maxexp then credexp else maxexp);
          maxexp2 = credexp
      in if credexp \<ge> requested then Committed
         else scan_creds requested creds maxexp2)"

text \<open>
  \<open>expiration_time\<close> is the caller's string, \<open>requested\<close> what
  \<^verbatim>\<open>dateutil.parser.parse\<close> and \<^verbatim>\<open>_naiveUTC\<close> make of it: the exception raised, or the
  instant.
\<close>

definition RenewSliver ::
  "am \<Rightarrow> string \<Rightarrow> (exc + time list) \<Rightarrow> string \<Rightarrow> (exc + time) \<Rightarrow> envelope result" where
  "RenewSliver s slice_urn creds expiration_time requested =
     (case creds of
        Inl e \<Rightarrow> (Inl e, s)
      | Inr creds \<Rightarrow>
     (case map_of (slices s) slice_urn of
        Some sliver \<Rightarrow>
          (let resources = catalog s (Some slice_urn) in
           if Slice_status (Slice_resources s sliver) resources = STATUS_SHUTDOWN then
             (Inr (errorResult 11
                (Fmt ''Unavailable: Slice %s is unavailable.'' [AStr slice_urn]) None), s)
           else
          (case requested of
             Inl e \<Rightarrow> (Inl e, s)
           | Inr requested \<Rightarrow>
          (case scan_creds requested creds datetime_min of
             Committed \<Rightarrow>
               (Inr (successResult (VBool True)),
                s\<lparr>slices := AList.update slice_urn (sliver\<lparr>expiration := requested\<rparr>)
                              (slices s)\<rparr>)
           | Fell_through maxexp \<Rightarrow>
               (Inr (errorResult 19
                  (Fmt ''Out of range: Expiration %s is out of range (past last credential expiration of %s).''
                     [AStr expiration_time, ATime maxexp]) None), s))))
      | None \<Rightarrow> (Inr (no_such_slice slice_urn), s)))"

definition Shutdown :: "am \<Rightarrow> string \<Rightarrow> (exc + time list) \<Rightarrow> envelope result" where
  "Shutdown s slice_urn creds =
     (case creds of
        Inl e \<Rightarrow> (Inl e, s)
      | Inr _ \<Rightarrow>
     (case map_of (slices s) slice_urn of
        Some _ \<Rightarrow>
          (let resources = catalog s (Some slice_urn)
           in (Inr (successResult (VBool True)),
               mutate_all (map rid resources) (\<lambda>r. r\<lparr>status := STATUS_SHUTDOWN\<rparr>) s))
      | None \<Rightarrow> (Inr (no_such_slice slice_urn), s)))"

section \<open>The public class AggregateManager\<close>

definition exception_result :: "exc \<Rightarrow> envelope" where
  "exception_result exception =
     \<lparr>geni_api = None,
      code = \<lparr>geni_code = 102, am_type = ''gcf3'', am_code = Some 0\<rparr>,
      value = VStr [], output = str_exc exception\<rparr>"

text \<open>\<^verbatim>\<open>try: return self._delegate.Op(...) except Exception as e: return self._exception_result(e)\<close>\<close>

definition try_except :: "envelope result \<Rightarrow> envelope \<times> am" where
  "try_except r = (case r of (Inl e, s) \<Rightarrow> (exception_result e, s) | (Inr env, s) \<Rightarrow> (env, s))"

definition AggregateManager_GetVersion :: "am \<Rightarrow> time \<Rightarrow> envelope \<times> am" where
  "AggregateManager_GetVersion s now = try_except (GetVersion s now)"

definition AggregateManager_ListResources ::
  "am \<Rightarrow> time \<Rightarrow> (exc + time list) \<Rightarrow> options \<Rightarrow> exc option \<Rightarrow> envelope \<times> am" where
  "AggregateManager_ListResources s now creds opts zfault =
     try_except (ListResources s now creds opts zfault)"

definition AggregateManager_Allocate ::
  "am \<Rightarrow> time \<Rightarrow> time \<Rightarrow> string \<Rightarrow> (exc + time list) \<Rightarrow> string list option \<Rightarrow> envelope \<times> am"
  where
  "AggregateManager_Allocate s now now2 slice_urn creds rspec =
     try_except (Allocate s now now2 slice_urn creds rspec)"

definition AggregateManager_DeleteSliver ::
  "am \<Rightarrow> urn_arg \<Rightarrow> (exc + time list) \<Rightarrow> envelope \<times> am" where
  "AggregateManager_DeleteSliver s slice_urn creds = try_except (Delete s [slice_urn] creds)"

section \<open>Construction and runs\<close>

text \<open>
  The constructor: an empty registry and three fresh FakeVM resources, whose generated
  ids are the arguments.
\<close>

definition ReferenceAggregateManager :: "rid \<Rightarrow> rid \<Rightarrow> rid \<Rightarrow> am" where
  "ReferenceAggregateManager i0 i1 i2 = \<lparr>agg = map FakeVM [i0, i1, i2], slices = []\<rparr>"




section \<open>Well-formed states\<close>




section \<open>Example states\<close>

text \<open>
  The state after \<^verbatim>\<open>Allocate\<close> of slice \<open>u\<close> with one node at time 0 under a credential
  expiring at 5, and the same state after \<^verbatim>\<open>Shutdown\<close> of that slice.
\<close>

definition slice_u :: slice where
  "slice_u = \<lparr>urn = ''u'', expiration = 5, res_ids = [''r0'']\<rparr>"

definition am_one :: am where
  "am_one =
     \<lparr>agg = [\<lparr>rid = ''r0'', rtype = ''fakevm'', external_id = Some ''n1'', available = False,
               status = STATUS_UNCONFIGURED, state = STATE_GENI_ALLOCATED\<rparr>,
             FakeVM ''r1'', FakeVM ''r2''],
      slices = [(''u'', slice_u)]\<rparr>"

definition am_shut :: am where
  "am_shut =
     \<lparr>agg = [\<lparr>rid = ''r0'', rtype = ''fakevm'', external_id = Some ''n1'', available = False,
               status = STATUS_SHUTDOWN, state = STATE_GENI_ALLOCATED\<rparr>,
             FakeVM ''r1'', FakeVM ''r2''],
      slices = [(''u'', slice_u)]\<rparr>"





section \<open>The example states are reachable\<close>

lemma am_one_reachable:
  "am_one = snd (Allocate (ReferenceAggregateManager ''r0'' ''r1'' ''r2'') 0 0 ''u''
                   (Inr [5]) (Some [''n1'']))"
  by code_simp

lemma am_shut_reachable: "am_shut = snd (Shutdown am_one ''u'' (Inr []))"
  by code_simp

section \<open>Aggregated status\<close>

lemma all_ready_iff:
  "(map status rs = map (\<lambda>res. STATUS_READY) rs) = (\<forall>r\<in>set rs. status r = STATUS_READY)"
  by (induction rs) auto

text \<open>
  C4, as the code has it. A slice with no member resource is reachable (a request with
  no node element), and SliverStatus reports it ready, not unknown: the comparison of
  two empty lists holds.
\<close>

theorem Slice_status_empty_counterexample:
  "fst (SliverStatus
          (snd (Allocate (ReferenceAggregateManager ''r0'' ''r1'' ''r2'') 0 0 ''u''
                  (Inr []) (Some [])))
          ''u'' (Inr []))
     = Inr \<lparr>geni_api = None,
             code = \<lparr>geni_code = 0, am_type = ''gcf2'', am_code = Some 0\<rparr>,
             value = VStatus ''u'' STATUS_READY [], output = Fmt [] []\<rparr>
   \<and> Slice_status [] [] \<noteq> STATUS_UNKNOWN"
  by code_simp

text \<open>
  C4 (amended): the status computed over the member resources \<open>rs\<close> of a slice is
  shutdown if any member is shutdown; else failed if any is failed; else configuring if
  any is configuring; else ready if and only if all members are ready, which holds of an
  empty member set; else unknown.
\<close>

theorem Slice_status_precedence:
  "Slice_status rs rs =
     (if \<exists>r\<in>set rs. status r = STATUS_SHUTDOWN then STATUS_SHUTDOWN
      else if \<exists>r\<in>set rs. status r = STATUS_FAILED then STATUS_FAILED
      else if \<exists>r\<in>set rs. status r = STATUS_CONFIGURING then STATUS_CONFIGURING
      else if \<forall>r\<in>set rs. status r = STATUS_READY then STATUS_READY
      else STATUS_UNKNOWN)"
proof -
  have mem: "(x \<in> set (map status rs)) = (\<exists>r\<in>set rs. status r = x)" for x
    by auto
  show ?thesis
    unfolding Slice_status_def Let_def all_ready_iff mem by simp
qed

theorem Slice_status_precedence_witness:
  "Slice_status [FakeVM ''r0''\<lparr>status := STATUS_SHUTDOWN\<rparr>, FakeVM ''r1''\<lparr>status := STATUS_READY\<rparr>]
     [FakeVM ''r0''\<lparr>status := STATUS_SHUTDOWN\<rparr>, FakeVM ''r1''\<lparr>status := STATUS_READY\<rparr>]
     = STATUS_SHUTDOWN
   \<and> Slice_status [FakeVM ''r0''\<lparr>status := STATUS_READY\<rparr>, FakeVM ''r1''\<lparr>status := STATUS_READY\<rparr>]
     [FakeVM ''r0''\<lparr>status := STATUS_READY\<rparr>, FakeVM ''r1''\<lparr>status := STATUS_READY\<rparr>]
     = STATUS_READY
   \<and> Slice_status [FakeVM ''r0'', FakeVM ''r1''\<lparr>status := STATUS_READY\<rparr>]
     [FakeVM ''r0'', FakeVM ''r1''\<lparr>status := STATUS_READY\<rparr>]
     = STATUS_UNKNOWN"
  using
    Slice_status_precedence
      [of "[FakeVM ''r0''\<lparr>status := STATUS_SHUTDOWN\<rparr>, FakeVM ''r1''\<lparr>status := STATUS_READY\<rparr>]"]
    Slice_status_precedence
      [of "[FakeVM ''r0''\<lparr>status := STATUS_READY\<rparr>, FakeVM ''r1''\<lparr>status := STATUS_READY\<rparr>]"]
    Slice_status_precedence
      [of "[FakeVM ''r0'', FakeVM ''r1''\<lparr>status := STATUS_READY\<rparr>]"]
  by (simp add: FakeVM_def)

section \<open>Delete of a shut down slice\<close>

text \<open>
  C8: a Delete call whose URNs parse to one type other than sliver, whose credentials
  verify and whose first URN names a registered slice with aggregated status shutdown
  returns the Unavailable error (code 11) and leaves the whole state as it was.
\<close>

theorem Delete_shutdown_unavailable:
  assumes types: "parse_urns urns = Inr (urn_type # urn_types)"
    and same: "length (remdups (urn_type # urn_types)) \<le> 1"
    and slice_type: "urn_type \<noteq> ''sliver''"
    and reg: "map_of (slices s) (fst (hd urns)) = Some theslice"
    and shut: "Slice_status (Slice_resources s theslice) (Slice_resources s theslice)
                 = STATUS_SHUTDOWN"
  shows "Delete s urns (Inr creds) =
           (Inr (errorResult 11
              (Fmt ''Unavailable: Slice %s is unavailable.'' [AStr (fst (hd urns))]) None), s)"
proof -
  from same have "\<not> 1 < length (remdups (urn_type # urn_types))" by simp
  with types slice_type reg shut show ?thesis
    unfolding Delete_def by (simp add: Let_def del: remdups.simps)
qed

theorem Delete_shutdown_unavailable_witness:
  "map_of (slices am_shut) ''u'' = Some slice_u
   \<and> Slice_status (Slice_resources am_shut slice_u) (Slice_resources am_shut slice_u)
       = STATUS_SHUTDOWN
   \<and> Delete am_shut [(''u'', Inr ''slice'')] (Inr []) =
       (Inr (errorResult 11 (Fmt ''Unavailable: Slice %s is unavailable.'' [AStr ''u'']) None),
        am_shut)"
proof -
  have reg: "map_of (slices am_shut) (fst (hd [(''u'', Inr ''slice'' :: exc + string)]))
               = Some slice_u"
    by (simp add: am_shut_def)
  have shut: "Slice_status (Slice_resources am_shut slice_u) (Slice_resources am_shut slice_u)
                = STATUS_SHUTDOWN"
    by code_simp
  have types: "parse_urns [(''u'', Inr ''slice'')] = Inr [''slice'']"
    by simp
  show ?thesis
    using Delete_shutdown_unavailable [OF types _ _ reg shut, of "[]"] reg shut by simp
qed

section \<open>RenewSliver\<close>

lemma scan_creds_Committed:
  "(scan_creds t creds m = Committed) = (\<exists>c\<in>set creds. t \<le> c)"
  by (induction creds arbitrary: m) (auto simp: Let_def)








text \<open>
  C7, at a failing input: the credentials expire at 20 and at 10, in this order, and the
  renewal until 30 fails. The message reports 10, the expiry of the last credential
  scanned, where the latest expiry is 20; with the credentials in the other order it
  reports 20. The assignment \<^verbatim>\<open>maxexp = credexp\<close> after the comparison overwrites
  the maximum kept so far.
\<close>

theorem RenewSliver_ceiling_is_last_credential:
  "fst (RenewSliver am_one ''u'' (Inr [20, 10]) ''30'' (Inr 30))
     = Inr (errorResult 19
         (Fmt ''Out of range: Expiration %s is out of range (past last credential expiration of %s).''
            [AStr ''30'', ATime 10]) None)
   \<and> fst (RenewSliver am_one ''u'' (Inr [10, 20]) ''30'' (Inr 30))
     = Inr (errorResult 19
         (Fmt ''Out of range: Expiration %s is out of range (past last credential expiration of %s).''
            [AStr ''30'', ATime 20]) None)
   \<and> Max (set [20, 10 :: time]) = 20"
  by code_simp



section \<open>Which operations sweep\<close>

text \<open>
  C3, at a failing input: in \<open>am_one\<close> the slice \<open>u\<close> expired at 5. A sweep at time 10
  removes it, and GetVersion called at 10 does so. SliverStatus, RenewSliver, Shutdown
  and Delete never call \<^verbatim>\<open>expire_slices\<close> and never read the clock: called at 10 on the
  expired slice they all find it registered and succeed, where a sweep as first step
  would make each of them answer SearchFailed.
\<close>

theorem sweep_skipped_by_four_operations:
  "map_of (slices (snd (expire_slices 10 am_one))) ''u'' = None
   \<and> slices (snd (GetVersion am_one 10)) = []
   \<and> fst (SliverStatus am_one ''u'' (Inr []))
       = Inr \<lparr>geni_api = None,
               code = \<lparr>geni_code = 0, am_type = ''gcf2'', am_code = Some 0\<rparr>,
               value = VStatus ''u'' STATUS_UNKNOWN [(''r0'', ''fakevm'', STATUS_UNCONFIGURED)],
               output = Fmt [] []\<rparr>
   \<and> RenewSliver am_one ''u'' (Inr [200]) ''100'' (Inr 100)
       = (Inr (successResult (VBool True)),
          am_one\<lparr>slices := [(''u'', slice_u\<lparr>expiration := 100\<rparr>)]\<rparr>)
   \<and> Shutdown am_one ''u'' (Inr []) = (Inr (successResult (VBool True)), am_shut)
   \<and> fst (Delete am_one [(''u'', Inr ''slice'')] (Inr [])) = Inr (successResult (VBool True))"
  by code_simp

section \<open>Allocate without enough resources\<close>

lemma expire_slices_none_expired:
  assumes "\<forall>sl\<in>set (map snd (slices s)). now \<le> expiration sl"
  shows "expire_slices now s = (Inr (), s)"
proof -
  from assms have "filter (\<lambda>sl. expiration sl < now) (map snd (slices s)) = []"
    by (auto simp: filter_empty_conv)
  then show ?thesis by (simp add: expire_slices_def)
qed

text \<open>
  C5, as the code has it. In \<open>am_one\<close> the slice \<open>u\<close> expired at 5, \<open>v\<close> is not
  registered and two resources are available. Allocate for \<open>v\<close> with four nodes at time
  10 returns InsufficientResources, and the state is not what it was: the sweep that
  opens the call has removed \<open>u\<close> and reset its resource.
\<close>

theorem Allocate_insufficient_counterexample:
  "map_of (slices am_one) ''v'' = None
   \<and> length (resources_available am_one) = 2
   \<and> fst (Allocate am_one 10 10 ''v'' (Inr []) (Some [''n1'', ''n2'', ''n3'', ''n4'']))
       = Inr (errorResult 6 (Fmt ''Too Big: insufficient resources to fulfill request'' []) None)
   \<and> snd (Allocate am_one 10 10 ''v'' (Inr []) (Some [''n1'', ''n2'', ''n3'', ''n4'']))
       = ReferenceAggregateManager ''r0'' ''r1'' ''r2''
   \<and> ReferenceAggregateManager ''r0'' ''r1'' ''r2'' \<noteq> am_one"
  by code_simp

text \<open>
  C5 (amended): when, after the sweep that opens the call, the slice URN is not
  registered and the parsed request names more nodes than there are available
  resources, Allocate returns InsufficientResources (code 6) and leaves catalog and
  registry exactly as the sweep left them; when no registered slice has expired at the
  time of the call, that is exactly as they were before the call.
\<close>

theorem Allocate_insufficient:
  assumes sweep: "expire_slices now s = (Inr (), s1)"
    and unreg: "map_of (slices s1) slice_urn = None"
    and big: "length (resources_available s1) < length nodes"
  shows "Allocate s now now2 slice_urn (Inr creds) (Some nodes) =
           (Inr (errorResult 6
              (Fmt ''Too Big: insufficient resources to fulfill request'' []) None), s1)
         \<and> ((\<forall>sl\<in>set (map snd (slices s)). now \<le> expiration sl) \<longrightarrow> s1 = s)"
proof
  from sweep unreg big
  show "Allocate s now now2 slice_urn (Inr creds) (Some nodes) =
           (Inr (errorResult 6
              (Fmt ''Too Big: insufficient resources to fulfill request'' []) None), s1)"
    by (simp add: Allocate_def)
next
  show "(\<forall>sl\<in>set (map snd (slices s)). now \<le> expiration sl) \<longrightarrow> s1 = s"
    using sweep expire_slices_none_expired [of s now] by auto
qed

theorem Allocate_insufficient_witness:
  "expire_slices 3 am_one = (Inr (), am_one)
   \<and> map_of (slices am_one) ''v'' = None
   \<and> length (resources_available am_one) = 2
   \<and> Allocate am_one 3 3 ''v'' (Inr [9]) (Some [''n1'', ''n2'', ''n3'']) =
           (Inr (errorResult 6
              (Fmt ''Too Big: insufficient resources to fulfill request'' []) None), am_one)"
proof -
  have sweep: "expire_slices 3 am_one = (Inr (), am_one)" by code_simp
  have unreg: "map_of (slices am_one) ''v'' = None" by code_simp
  have avail: "length (resources_available am_one) = 2" by code_simp
  have big: "length (resources_available am_one) < length [''n1'', ''n2'', ''n3'']"
    unfolding avail by simp
  show ?thesis
    using Allocate_insufficient [OF sweep unreg big, of 3 "[9]"] sweep unreg avail by simp
qed

section \<open>Bounds on the stored expiration\<close>

lemma attach_loop_fields:
  "attach_loop resources newslice s = (sl, s') \<Longrightarrow>
     expiration sl = expiration newslice \<and> urn sl = urn newslice \<and> slices s' = slices s"
  by (induction resources newslice s rule: attach_loop.induct)
     (auto simp: add_resource_def mutate_def)

lemma clamp_by_creds:
  "foldl (\<lambda>e credexp. if credexp < e then credexp else e) (e0 :: time) creds \<le> e0
   \<and> (\<forall>c\<in>set creds. foldl (\<lambda>e credexp. if credexp < e then credexp else e) e0 creds \<le> c)"
proof (induction creds arbitrary: e0)
  case Nil
  show ?case by simp
next
  case (Cons c creds)
  from Cons [of "if c < e0 then c else e0"] show ?case
    by (auto split: if_splits)
qed

lemma naiveUTC_Inr: "naiveUTC dt = Inr t \<Longrightarrow> t = dt"
  by (simp add: naiveUTC_def split: if_splits)

lemma datetime_add_Inr: "datetime_add dt delta = Inr t \<Longrightarrow> t = dt + delta"
  by (simp add: datetime_add_def split: if_splits)

lemma clamp_loop_Inr:
  "clamp_loop creds e0 = Inr e1 \<Longrightarrow>
     e1 = foldl (\<lambda>e credexp. if credexp < e then credexp else e) e0 creds"
  by (induction creds arbitrary: e0) (auto split: sum.splits dest: naiveUTC_Inr)

lemma Allocate_success:
  assumes "Allocate s now now2 slice_urn (Inr creds) rspec = (Inr env, s')"
    and "geni_code (code env) = 0"
  shows "\<exists>sl. map_of (slices s') slice_urn = Some sl
           \<and> expiration sl = foldl (\<lambda>e credexp. if credexp < e then credexp else e)
                 (now2 + timedelta_seconds ALLOCATE_EXPIRATION_SECONDS) creds"
  using assms
  by (auto simp: Allocate_def Let_def errorResult_def Slice_def update_conv'
      split: prod.splits sum.splits if_splits option.splits
      dest!: attach_loop_fields datetime_add_Inr clamp_loop_Inr)

lemma RenewSliver_success:
  assumes "RenewSliver s slice_urn (Inr creds) expiration_time requested = (Inr env, s')"
    and "geni_code (code env) = 0"
  shows "\<exists>sl t. requested = Inr t \<and> map_of (slices s') slice_urn = Some sl
           \<and> expiration sl = t \<and> (\<exists>c\<in>set creds. t \<le> c)"
  using assms
  by (auto simp: RenewSliver_def Let_def errorResult_def no_such_slice_def update_conv'
      split: option.splits if_splits sum.splits scan.splits
      dest: scan_creds_Committed [THEN iffD1])

lemma window_le_max_lease:
  "timedelta_seconds ALLOCATE_EXPIRATION_SECONDS \<le> max_lease"
  by (simp add: timedelta_seconds_def ALLOCATE_EXPIRATION_SECONDS_def max_lease_def
      timedelta_days_def REFAM_MAXLEASE_DAYS_def)

text \<open>
  C2, as the code has it. At time 0 the lease of \<open>u\<close> runs until 5. A renewal under
  credentials expiring at 100 and at 40000000000000 microseconds, requested until
  35000000000000, succeeds and stores the requested instant: later than the earliest
  credential expiry, and later than 365 days (31536000000000 microseconds) from now.
\<close>

theorem expiration_bounded_counterexample:
  "RenewSliver am_one ''u'' (Inr [100, 40000000000000]) ''t'' (Inr 35000000000000)
     = (Inr (successResult (VBool True)),
        am_one\<lparr>slices := [(''u'', slice_u\<lparr>expiration := 35000000000000\<rparr>)]\<rparr>)
   \<and> Min (set [100, 40000000000000 :: time]) < 35000000000000
   \<and> (0 :: time) + max_lease < 35000000000000"
  by code_simp

text \<open>
  C2 (amended): the expiration stored by a successful Allocate exceeds no expiry of the
  credentials verified for that call, nor the time of the call plus the allocation
  window of 600 seconds, hence not that time plus the maximum lease of 365 days. The
  expiration stored by a successful RenewSliver is the requested instant, and some
  credential verified for that call expires at or after it; RenewSliver compares it
  neither with the earliest credential expiry nor with the maximum lease.
\<close>

theorem expiration_bounded:
  "(Allocate s now now2 slice_urn (Inr creds) rspec = (Inr env, s') \<and> geni_code (code env) = 0
      \<longrightarrow> (\<exists>sl. map_of (slices s') slice_urn = Some sl
             \<and> (\<forall>c\<in>set creds. expiration sl \<le> c)
             \<and> expiration sl \<le> now2 + timedelta_seconds ALLOCATE_EXPIRATION_SECONDS
             \<and> expiration sl \<le> now2 + max_lease))
   \<and> (RenewSliver s slice_urn (Inr creds) expiration_time requested = (Inr env, s')
        \<and> geni_code (code env) = 0
      \<longrightarrow> (\<exists>sl t. requested = Inr t \<and> map_of (slices s') slice_urn = Some sl
             \<and> expiration sl = t \<and> (\<exists>c\<in>set creds. t \<le> c)))"
proof (intro conjI impI)
  assume a: "Allocate s now now2 slice_urn (Inr creds) rspec = (Inr env, s')
               \<and> geni_code (code env) = 0"
  let ?e0 = "now2 + timedelta_seconds ALLOCATE_EXPIRATION_SECONDS"
  from a Allocate_success [of s now now2 slice_urn creds rspec env s']
  obtain sl where sl: "map_of (slices s') slice_urn = Some sl"
    and e: "expiration sl = foldl (\<lambda>e credexp. if credexp < e then credexp else e) ?e0 creds"
    by auto
  from clamp_by_creds [of ?e0 creds] e
  have "expiration sl \<le> ?e0" and "\<forall>c\<in>set creds. expiration sl \<le> c"
    by simp_all
  moreover from \<open>expiration sl \<le> ?e0\<close> window_le_max_lease
  have "expiration sl \<le> now2 + max_lease" by simp
  ultimately show "\<exists>sl. map_of (slices s') slice_urn = Some sl
             \<and> (\<forall>c\<in>set creds. expiration sl \<le> c)
             \<and> expiration sl \<le> now2 + timedelta_seconds ALLOCATE_EXPIRATION_SECONDS
             \<and> expiration sl \<le> now2 + max_lease"
    using sl by blast
next
  assume "RenewSliver s slice_urn (Inr creds) expiration_time requested = (Inr env, s')
        \<and> geni_code (code env) = 0"
  then show "\<exists>sl t. requested = Inr t \<and> map_of (slices s') slice_urn = Some sl
             \<and> expiration sl = t \<and> (\<exists>c\<in>set creds. t \<le> c)"
    using RenewSliver_success [of s slice_urn creds expiration_time requested env s'] by simp
qed

theorem expiration_bounded_witness:
  "(\<exists>sl. map_of (slices am_one) ''u'' = Some sl
      \<and> expiration sl \<le> 5
      \<and> expiration sl \<le> 0 + timedelta_seconds ALLOCATE_EXPIRATION_SECONDS
      \<and> expiration sl \<le> 0 + max_lease)
   \<and> (\<exists>sl. map_of (slices (am_one\<lparr>slices := [(''u'', slice_u\<lparr>expiration := 50\<rparr>)]\<rparr>)) ''u'' = Some sl
      \<and> expiration sl = 50 \<and> (\<exists>c\<in>set [10, 100 :: time]. 50 \<le> c))"
proof -
  have run: "Allocate (ReferenceAggregateManager ''r0'' ''r1'' ''r2'') 0 0 ''u'' (Inr [5])
               (Some [''n1''])
     = (Inr \<lparr>geni_api = None,
              code = \<lparr>geni_code = 0, am_type = ''gcf'', am_code = Some 0\<rparr>,
              value = VAllocated [Some ''n1''] [(''r0'', 5, STATE_GENI_ALLOCATED)],
              output = Fmt [] []\<rparr>, am_one)"
    by code_simp
  have renew: "RenewSliver am_one ''u'' (Inr [10, 100]) ''50'' (Inr 50)
     = (Inr (successResult (VBool True)),
        am_one\<lparr>slices := [(''u'', slice_u\<lparr>expiration := 50\<rparr>)]\<rparr>)"
    by code_simp
  have ok: "geni_code (code (successResult (VBool True))) = 0"
    by (simp add: successResult_def)
  show ?thesis
    using expiration_bounded [THEN conjunct1, rule_format, OF conjI, OF run]
      expiration_bounded [THEN conjunct2, rule_format, OF conjI, OF renew ok]
    by simp
qed

section \<open>No double binding\<close>





































section \<open>Envelopes at the public boundary\<close>

lemma GetVersion_shape:
  "GetVersion s now = (Inr env, s') \<Longrightarrow>
     geni_code (code env) = 0 \<and> am_code (code env) = Some 0 \<and> output env = Fmt [] []"
  by (auto simp: GetVersion_def split: prod.splits sum.splits)

lemma ListResources_shape:
  "ListResources s now creds opts zfault = (Inr env, s') \<Longrightarrow>
     (geni_code (code env) = 0 \<and> am_code (code env) = Some 0 \<and> output env = Fmt [] [])
     \<or> (geni_code (code env) \<in> {1, 4} \<and> am_type (code env) = ''gcf2''
          \<and> am_code (code env) = None \<and> value env = VStr [])"
  by (auto simp: ListResources_def Let_def errorResult_def
      split: prod.splits sum.splits option.splits if_splits)

lemma Allocate_shape:
  "Allocate s now now2 slice_urn creds rspec = (Inr env, s') \<Longrightarrow>
     (geni_code (code env) = 0 \<and> am_code (code env) = Some 0 \<and> output env = Fmt [] [])
     \<or> (geni_code (code env) \<in> {1, 6, 17} \<and> am_type (code env) = ''gcf2''
          \<and> am_code (code env) = None \<and> value env = VStr [])"
  by (auto simp: Allocate_def Let_def errorResult_def
      split: prod.splits sum.splits option.splits if_splits)

lemma Delete_shape:
  "Delete s urns creds = (Inr env, s') \<Longrightarrow>
     (geni_code (code env) = 0 \<and> am_code (code env) = Some 0 \<and> output env = Fmt [] [])
     \<or> (geni_code (code env) \<in> {1, 5, 11, 12} \<and> am_type (code env) = ''gcf2''
          \<and> am_code (code env) = None \<and> value env = VStr [])"
  by (auto simp: Delete_def Let_def errorResult_def successResult_def no_such_slice_def
      split: sum.splits list.splits option.splits if_splits)

text \<open>
  C9 (amended): each operation of the public class (GetVersion, ListResources, Allocate,
  DeleteSliver) returns an envelope and the state its delegate left. When the delegate
  raises, the envelope is the exception envelope: code 102 with type gcf3, \<^verbatim>\<open>am_code\<close> 0,
  an empty value and the exception's text as output. Otherwise it is the delegate's
  envelope, which is either a success envelope (\<^verbatim>\<open>geni_code\<close> 0, \<^verbatim>\<open>am_code\<close> 0, empty
  output) or an error envelope built by \<^verbatim>\<open>errorResult\<close>: a nonzero \<^verbatim>\<open>geni_code\<close>, type gcf2,
  an empty value, and no \<^verbatim>\<open>am_code\<close> member.
\<close>

theorem AggregateManager_envelope:
  assumes "(r, d) \<in> {(AggregateManager_GetVersion s now, GetVersion s now),
       (AggregateManager_ListResources s now creds opts zfault,
          ListResources s now creds opts zfault),
       (AggregateManager_Allocate s now now2 slice_urn creds rspec,
          Allocate s now now2 slice_urn creds rspec),
       (AggregateManager_DeleteSliver s urn_arg creds, Delete s [urn_arg] creds)}"
  shows "snd r = snd d
     \<and> (case fst d of
          Inl e \<Rightarrow>
            fst r = exception_result e \<and> geni_code (code (fst r)) = 102
            \<and> am_type (code (fst r)) = ''gcf3'' \<and> am_code (code (fst r)) = Some 0
            \<and> value (fst r) = VStr [] \<and> output (fst r) = str_exc e
        | Inr env \<Rightarrow>
            fst r = env
            \<and> ((geni_code (code env) = 0 \<and> am_code (code env) = Some 0
                 \<and> output env = Fmt [] [])
               \<or> (geni_code (code env) \<in> {1, 4, 5, 6, 11, 12, 17}
                  \<and> am_type (code env) = ''gcf2'' \<and> am_code (code env) = None
                  \<and> value env = VStr [])))"
proof -
  have r: "r = try_except d"
    using assms
    by (auto simp: AggregateManager_GetVersion_def AggregateManager_ListResources_def
        AggregateManager_Allocate_def AggregateManager_DeleteSliver_def)
  obtain x s' where d: "d = (x, s')" by (cases d)
  show ?thesis
  proof (cases x)
    case (Inl e)
    with r d show ?thesis
      by (simp add: try_except_def exception_result_def)
  next
    case (Inr env)
    from assms d Inr
    have "(geni_code (code env) = 0 \<and> am_code (code env) = Some 0 \<and> output env = Fmt [] [])
               \<or> (geni_code (code env) \<in> {1, 4, 5, 6, 11, 12, 17}
                  \<and> am_type (code env) = ''gcf2'' \<and> am_code (code env) = None
                  \<and> value env = VStr [])"
      using GetVersion_shape [of s now env s']
        ListResources_shape [of s now creds opts zfault env s']
        Allocate_shape [of s now now2 slice_urn creds rspec env s']
        Delete_shape [of s "[urn_arg]" creds env s']
      by auto
    with r d Inr show ?thesis
      by (simp add: try_except_def)
  qed
qed

text \<open>
  C9, as the code has it: DeleteSliver of a slice that is not registered returns the
  SearchFailed envelope, whose \<^verbatim>\<open>code\<close> has no \<^verbatim>\<open>am_code\<close> member. \<^verbatim>\<open>errorResult\<close> adds the
  key only when it is given one, and no caller gives one.
\<close>

theorem AggregateManager_envelope_counterexample:
  "AggregateManager_DeleteSliver (ReferenceAggregateManager ''r0'' ''r1'' ''r2'')
       (''u'', Inr ''slice'') (Inr [])
     = (\<lparr>geni_api = None,
         code = \<lparr>geni_code = 12, am_type = ''gcf2'', am_code = None\<rparr>,
         value = VStr [],
         output = Fmt (''Search Failed: no slice '' @ dquote @ ''%s'' @ dquote @ '' found'')
                    [AStr ''u'']\<rparr>,
        ReferenceAggregateManager ''r0'' ''r1'' ''r2'')"
  by code_simp


theorem AggregateManager_envelope_witness:
  "fst (AggregateManager_GetVersion (ReferenceAggregateManager ''r0'' ''r1'' ''r2'') 0)
     = \<lparr>geni_api = Some 3, code = \<lparr>geni_code = 0, am_type = ''gcf'', am_code = Some 0\<rparr>,
        value = VVersions 3, output = Fmt [] []\<rparr>
   \<and> fst (AggregateManager_Allocate (ReferenceAggregateManager ''r0'' ''r1'' ''r2'') 0 0 ''u''
            (Inl (Raised ''Exception'' (Fmt ''no valid credential'' []))) (Some [''n1'']))
     = \<lparr>geni_api = None, code = \<lparr>geni_code = 102, am_type = ''gcf3'', am_code = Some 0\<rparr>,
        value = VStr [], output = Fmt ''no valid credential'' []\<rparr>
   \<and> fst (AggregateManager_DeleteSliver (ReferenceAggregateManager ''r0'' ''r1'' ''r2'')
            (''u'', Inr ''slice'') (Inr []))
     = no_such_slice ''u''
   \<and> am_code (code (no_such_slice ''u'')) = None"
proof -
  let ?s = "ReferenceAggregateManager ''r0'' ''r1'' ''r2''"
  let ?e = "Raised ''Exception'' (Fmt ''no valid credential'' [])"
  have g: "fst (GetVersion ?s 0)
      = Inr \<lparr>geni_api = Some 3, code = \<lparr>geni_code = 0, am_type = ''gcf'', am_code = Some 0\<rparr>,
        value = VVersions 3, output = Fmt [] []\<rparr>"
    by code_simp
  have a: "fst (Allocate ?s 0 0 ''u'' (Inl ?e) (Some [''n1''])) = Inl ?e"
    by code_simp
  have d: "fst (Delete ?s [(''u'', Inr ''slice'')] (Inr [])) = Inr (no_such_slice ''u'')"
    by code_simp
  have n: "am_code (code (no_such_slice ''u'')) = None"
    by (simp add: no_such_slice_def errorResult_def)
  from AggregateManager_envelope
    [of "AggregateManager_GetVersion ?s 0" "GetVersion ?s 0" ?s 0]
  have 1: "fst (AggregateManager_GetVersion ?s 0)
      = \<lparr>geni_api = Some 3, code = \<lparr>geni_code = 0, am_type = ''gcf'', am_code = Some 0\<rparr>,
        value = VVersions 3, output = Fmt [] []\<rparr>"
    by (simp add: g)
  from AggregateManager_envelope
    [of "AggregateManager_Allocate ?s 0 0 ''u'' (Inl ?e) (Some [''n1''])"
        "Allocate ?s 0 0 ''u'' (Inl ?e) (Some [''n1''])" ?s 0 "Inl ?e" _ _ 0 "''u''" "Some [''n1'']"]
  have 2: "fst (AggregateManager_Allocate ?s 0 0 ''u'' (Inl ?e) (Some [''n1'']))
      = exception_result ?e"
    by (simp add: a)
  from AggregateManager_envelope
    [of "AggregateManager_DeleteSliver ?s (''u'', Inr ''slice'') (Inr [])"
        "Delete ?s [(''u'', Inr ''slice'')] (Inr [])" ?s _ "Inr []" _ _ _ _ _ "(''u'', Inr ''slice'')"]
  have 3: "fst (AggregateManager_DeleteSliver ?s (''u'', Inr ''slice'') (Inr []))
      = no_such_slice ''u''"
    by (simp add: d)
  from 1 2 3 n show ?thesis
    by (simp add: exception_result_def)
qed

end
